theory Spec2Isabelle
  imports Main
begin

section \<open>JavaScript values, objects and errors\<close>

text \<open>
  The ground-control station is two singletons, \<open>MessageHandler\<close> and \<open>Orchestrator\<close>
  (\<open>src/main/control\<close>). Both are embedded with explicit state passing. A JavaScript
  function that throws keeps the mutations made before the throw, so every operation
  returns a pair: the outcome (\<open>Inl\<close> the exception, \<open>Inr\<close> the returned value) and the
  state it leaves.
\<close>

text \<open>\<open>TypeError\<close> is the exception of the program. \<open>Unmodelled\<close> is not an exception:
  it marks an input on which the embedding has no value for what the program computes
  (text outside ASCII, whose case mapping is Unicode's; a number used as a property
  name). No statement below is about an outcome \<open>Inl Unmodelled\<close>.\<close>

datatype error = TypeError | Unmodelled

text \<open>Primitive values. Numbers are the integers (ids and timestamps); \<open>===\<close> on
  primitives is then equality of the datatype.\<close>

datatype jsval = JUndefined | JNull | JBool bool | JNum int | JStr string

text \<open>A message is a plain object: its own properties, keys distinct.\<close>

type_synonym message = "(string \<times> jsval) list"

text \<open>\<open>msg.hasOwnProperty(f)\<close>. The method is looked up on the message itself first: an
  own field named \<open>hasOwnProperty\<close> shadows the method of \<open>Object.prototype\<close>, and as
  its value is a primitive the call throws.\<close>

definition hasOwnProperty :: "message \<Rightarrow> string \<Rightarrow> error + bool" where
  "hasOwnProperty msg f =
     (if map_of msg ''hasOwnProperty'' \<noteq> None then Inl TypeError
      else Inr (map_of msg f \<noteq> None))"

text \<open>\<open>msg.f\<close> on an object: an absent property reads as \<open>undefined\<close>.\<close>

definition getField :: "message \<Rightarrow> string \<Rightarrow> jsval" where
  "getField msg f = (case map_of msg f of None \<Rightarrow> JUndefined | Some v \<Rightarrow> v)"

text \<open>A value that is either a primitive or a message object, for the parameter of
  \<open>asyncSendMessage\<close>, which is called with both.\<close>

datatype jsarg = Prim jsval | Obj message

text \<open>\<open>x.f\<close> for a control field \<open>f\<close>: throws on \<open>undefined\<close> and \<open>null\<close>, is
  \<open>undefined\<close> on the other primitives.\<close>

fun getProp :: "jsarg \<Rightarrow> string \<Rightarrow> error + jsval" where
  "getProp (Obj m) f = Inr (getField m f)"
| "getProp (Prim JUndefined) f = Inl TypeError"
| "getProp (Prim JNull) f = Inl TypeError"
| "getProp (Prim v) f = Inr JUndefined"

text \<open>\<open>String.prototype.toUpperCase\<close>. On a value that is not a string the call throws.
  On ASCII text it changes the letters a to z and nothing else. A character of type
  \<open>char\<close> is a byte; a byte from 128 on stands for text outside ASCII, where the
  method follows Unicode (dotless i becomes I): there the embedding has no value.\<close>

definition toUpperChar :: "char \<Rightarrow> char" where
  "toUpperChar c =
     (case map_of (zip ''abcdefghijklmnopqrstuvwxyz'' ''ABCDEFGHIJKLMNOPQRSTUVWXYZ'') c of
        None \<Rightarrow> c
      | Some u \<Rightarrow> u)"

fun toUpperCase :: "jsval \<Rightarrow> error + string" where
  "toUpperCase (JStr s) =
     (if list_ex digit7 s then Inl Unmodelled else Inr (map toUpperChar s))"
| "toUpperCase v = Inl TypeError"

text \<open>The conversion of a value to a property name, as the \<open>in\<close> operator applies it
  to its left operand. The decimal text of a number is not modelled.\<close>

fun toPropertyKey :: "jsval \<Rightarrow> error + string" where
  "toPropertyKey (JStr s) = Inr s"
| "toPropertyKey JUndefined = Inr ''undefined''"
| "toPropertyKey JNull = Inr ''null''"
| "toPropertyKey (JBool b) = Inr (if b then ''true'' else ''false'')"
| "toPropertyKey (JNum n) = Inl Unmodelled"

text \<open>The property names every plain object inherits from \<open>Object.prototype\<close>.\<close>

definition objectPrototypeNames :: "string list" where
  "objectPrototypeNames =
     [''constructor'', ''__defineGetter__'', ''__defineSetter__'', ''hasOwnProperty'',
      ''__lookupGetter__'', ''__lookupSetter__'', ''isPrototypeOf'', ''propertyIsEnumerable'',
      ''toString'', ''valueOf'', ''__proto__'', ''toLocaleString'']"

text \<open>\<open>key in obj\<close> for a plain object with the own property names \<open>own\<close>: true for
  own and for inherited names.\<close>

definition propertyIn :: "string \<Rightarrow> string list \<Rightarrow> bool" where
  "propertyIn key own = (key \<in> set own \<or> key \<in> set objectPrototypeNames)"

text \<open>\<open>arr[i] = v\<close> on an array: an index past the end extends the array, the
  positions in between read as \<open>undefined\<close>.\<close>

definition arrayAssign :: "jsval list \<Rightarrow> nat \<Rightarrow> jsval \<Rightarrow> jsval list" where
  "arrayAssign xs i v =
     (if i < length xs then xs[i := v]
      else xs @ replicate (i - length xs) JUndefined @ [v])"

section \<open>UpdateHandler registrations\<close>

text \<open>
  Modelled from the spec: \<open>DataStructures/UpdateHandler\<close> is not among the sources. The
  spec's WatchdogScheduler takes a key, a renewal callback, an expiry callback and a
  delay; the model records each \<open>addHandler\<close> call, in order, and leaves the firing of
  timers to the caller. The event string of \<open>asyncSendMessage\<close> is kept as the three
  values it interpolates.
\<close>

datatype hkey = EventString jsval jsval jsval | VehicleKey jsval

datatype callback =
    RmMsgCb jsarg
  | DeactivateCb jsarg
  | PingAgainCb nat

datatype handler = Handler hkey callback callback int

section \<open>Vehicles and missions\<close>

text \<open>
  Modelled from the spec: the \<open>Vehicle\<close> class is not among the sources. The spec gives
  a vehicle an id, a capability descriptor, a status, the flags \<open>isActive\<close> and
  \<open>isAvailable\<close>, the time of last contact and a timeout length; \<open>setActive\<close> and
  \<open>setAvailable\<close> set the two flags. \<open>vehicleId\<close> of \<open>pingAgain_f\<close> is the same id.
\<close>

record vehicle =
  vid :: jsval
  jobsAvailable :: jsval
  vstatus :: jsval
  isActive :: bool
  isAvailable :: bool
  lastConnTime :: int
  vehicleTimeoutLength :: int

text \<open>
  Modelled from the spec: the \<open>Vehicle\<close> constructor. A vehicle created on CONNECT is
  active (registered and not deactivated) and available (not committed to a task).
\<close>

definition Vehicle_new :: "jsval \<Rightarrow> jsval \<Rightarrow> jsval \<Rightarrow> int \<Rightarrow> int \<Rightarrow> vehicle" where
  "Vehicle_new i jobs st now tmo =
     \<lparr>vid = i, jobsAvailable = jobs, vstatus = st, isActive = True, isAvailable = True,
      lastConnTime = now, vehicleTimeoutLength = tmo\<rparr>"

text \<open>
  Modelled from the spec: the \<open>Mission\<close> class is not among the sources. The sequencer
  reads a mission's \<open>status\<close>, the value of \<open>missionSetupComplete()\<close>, its constructor
  name and the result of \<open>getMissionActiveVehicles()\<close>, taken as a plain object keyed by
  vehicle id (the spec's mapping of vehicle id to role) and kept as its own property
  names.
\<close>

record mission =
  name :: string
  status :: jsval
  setupResult :: jsval
  activeVehicles :: "string list"

text \<open>An element of the array given to \<open>addMissions\<close>: a \<open>Mission\<close> instance, or
  something else, with its \<open>constructor.name\<close> when that can be read (it cannot on
  \<open>null\<close> and \<open>undefined\<close>).\<close>

datatype entry = IsMission mission | NotMission "string option"

text \<open>What the orchestrator does to the outside: console logging and the calls into
  missions and vehicles.\<close>

datatype event =
    Logged string
  | ListenForStatusUpdates mission nat
  | MissionStart mission jsval
  | MissionUpdate mission message
  | VehicleUpdate nat message

section \<open>State of the two singletons\<close>

text \<open>
  \<open>messageOutbox\<close> is a reference into a store of arrays: \<open>rmMsg\<close> receives the array
  object itself, and what it does to that object is the content of a claim.
  \<open>messagesSent\<close> and \<open>messagesReceived\<close> are only pushed to.
\<close>

record messageHandler =
  arrays :: "message list list"
  messageOutbox :: nat
  messagesSent :: "jsval list"
  messagesReceived :: "jsval list"
  messageIDSeed :: int
  updateHandler :: "handler list"

text \<open>Vehicles are objects shared between the registry, timers and callers:
  \<open>vehicles\<close> is the store, \<open>knownVehicles\<close> the array of references.\<close>

record orchestrator =
  scheduledMissions :: "mission list"
  scheduledMissionsStatus :: "jsval list"
  currentMission :: "mission option"
  currentMissionIndex :: nat
  currentMissionVehicles :: "string list option"
  nextMissionRequiredData :: jsval
  knownVehicles :: "nat list"
  vehicles :: "vehicle list"
  isRunning :: bool
  vehicleStatusUpdater :: "handler list"
  trace :: "event list"

record system =
  mh :: messageHandler
  orch :: orchestrator

definition MessageHandler_new :: "int \<Rightarrow> messageHandler" where
  "MessageHandler_new now =
     \<lparr>arrays = [[]], messageOutbox = 0, messagesSent = [], messagesReceived = [],
      messageIDSeed = now, updateHandler = []\<rparr>"

definition Orchestrator_new :: orchestrator where
  "Orchestrator_new =
     \<lparr>scheduledMissions = [], scheduledMissionsStatus = [], currentMission = None,
      currentMissionIndex = 0, currentMissionVehicles = None,
      nextMissionRequiredData = JNull, knownVehicles = [], vehicles = [],
      isRunning = False, vehicleStatusUpdater = [], trace = []\<rparr>"

definition System_new :: "int \<Rightarrow> system" where
  "System_new now = \<lparr>mh = MessageHandler_new now, orch = Orchestrator_new\<rparr>"

definition log :: "string \<Rightarrow> orchestrator \<Rightarrow> orchestrator" where
  "log site s = s\<lparr>trace := trace s @ [Logged site]\<rparr>"

section \<open>MessageHandler\<close>

text \<open>
  \<open>rmMsg(mID, box)\<close>: \<open>box.filter(...)\<close> builds a new array and the parameter is
  rebound to it. The model allocates the new array at the end of the store and
  returns its reference with the store.
\<close>

definition rmMsg :: "jsval \<Rightarrow> nat \<Rightarrow> message list list \<Rightarrow> nat \<times> message list list" where
  "rmMsg mID box h =
     (length h, h @ [filter (\<lambda>obj. \<not> (getField obj ''id'' = mID)) (h ! box)])"

text \<open>\<open>nextMsgID\<close> is \<open>(new Date()).now()\<close>. \<open>now\<close> is a static method of \<open>Date\<close>;
  an instance has no such property, so the call throws on every run.\<close>

definition nextMsgID :: "error + jsval" where
  "nextMsgID = Inl TypeError"

definition messageRecipients :: "message \<Rightarrow> error + string list" where
  "messageRecipients msg =
     (case toUpperCase (getField msg ''type'') of
        Inl e \<Rightarrow> Inl e
      | Inr t \<Rightarrow>
          Inr ((if t = ''CONNECT'' then [''GCS'']
                else if t = ''UPDATE'' then [''vehicle'']
                else []) @ [''GCS'']))"

text \<open>\<open>asyncSendMessage(msg)\<close> has one parameter. The renewal callback is
  \<open>() => this.rmMsg(msg.id, this.messageOutbox)\<close>, the expiry callback deactivates the
  vehicle looked up by \<open>msg.tid\<close>.\<close>

definition asyncSendMessage :: "jsarg \<Rightarrow> messageHandler \<Rightarrow> (error + unit) \<times> messageHandler" where
  "asyncSendMessage msg s =
     (case getProp msg ''tid'' of
        Inl e \<Rightarrow> (Inl e, s)
      | Inr tid \<Rightarrow>
     (case getProp msg ''mID'' of
        Inl e \<Rightarrow> (Inl e, s)
      | Inr mid \<Rightarrow>
     (case getProp msg ''type'' of
        Inl e \<Rightarrow> (Inl e, s)
      | Inr ty \<Rightarrow>
          (Inr (),
           s\<lparr>updateHandler := updateHandler s @
                [Handler (EventString tid mid ty) (RmMsgCb msg) (DeactivateCb msg) 3000]\<rparr>))))"

text \<open>The renewal callback registered above, when it runs: the array returned by
  \<open>rmMsg\<close> goes to the caller of the callback, the field \<open>messageOutbox\<close> is not
  assigned.\<close>

definition renewalCallback :: "jsarg \<Rightarrow> messageHandler \<Rightarrow> (error + nat) \<times> messageHandler" where
  "renewalCallback msg s =
     (case getProp msg ''id'' of
        Inl e \<Rightarrow> (Inl e, s)
      | Inr i \<Rightarrow>
          (case rmMsg i (messageOutbox s) (arrays s) of
             (box', h') \<Rightarrow> (Inr box', s\<lparr>arrays := h'\<rparr>)))"

text \<open>The loop of \<open>sendMessageTo\<close>: \<open>asyncSendMessage(v, message)\<close> for each recipient
  \<open>v\<close>; the callee binds its one parameter to \<open>v\<close>.\<close>

fun sendToRecipients :: "string list \<Rightarrow> message \<Rightarrow> messageHandler \<Rightarrow> (error + unit) \<times> messageHandler" where
  "sendToRecipients [] message s = (Inr (), s)"
| "sendToRecipients (v # vs) message s =
     (case asyncSendMessage (Prim (JStr v)) s of
        (Inl e, s') \<Rightarrow> (Inl e, s')
      | (Inr u, s') \<Rightarrow> sendToRecipients vs message s')"

definition sendMessageTo :: "jsval \<Rightarrow> message \<Rightarrow> messageHandler \<Rightarrow> (error + unit) \<times> messageHandler" where
  "sendMessageTo vehicle message s =
     (let s1 = (if getField message ''type'' = JStr ''ACK''
                then (case rmMsg (getField message ''ackID'') (messageOutbox s) (arrays s) of
                        (box', h') \<Rightarrow> s\<lparr>arrays := h', messageOutbox := box'\<rparr>)
                else s)
      in case messageRecipients message of
           Inl e \<Rightarrow> (Inl e, s1)
         | Inr rs \<Rightarrow>
             (case sendToRecipients rs message s1 of
                (Inl e, s2) \<Rightarrow> (Inl e, s2)
              | (Inr u, s2) \<Rightarrow>
                  (Inr (), s2\<lparr>messagesSent := messagesSent s2 @ [getField message ''id'']\<rparr>)))"

text \<open>The \<open>switch\<close> of \<open>isValidFormat\<close> on the upper-cased type: the fields pushed
  after \<open>id\<close>, \<open>type\<close> and \<open>vehicleID\<close>. The case \<open>'badMessage'\<close> calls
  \<open>MessageHandler.log\<close>, which the class does not define.\<close>

definition typeFields :: "string \<Rightarrow> error + string list" where
  "typeFields t =
     (if t = ''UPDATE'' then Inr []
      else if t = ''ACK'' then Inr [''ackID'', ''ackType'']
      else if t = ''CONNECT'' then Inr [''jobsAvailable'']
      else if t = ''POI'' then Inr [''lat'', ''lon'']
      else if t = ''COMPLETE'' then Inr [''missionData'']
      else if t = ''badMessage'' then Inl TypeError
      else Inr [])"

text \<open>The loop over \<open>reqdFields\<close> that collects the fields the message does not have.\<close>

fun missingFields :: "message \<Rightarrow> string list \<Rightarrow> error + string list" where
  "missingFields msg [] = Inr []"
| "missingFields msg (field # rest) =
     (case hasOwnProperty msg field of
        Inl e \<Rightarrow> Inl e
      | Inr has \<Rightarrow>
          (case missingFields msg rest of
             Inl e \<Rightarrow> Inl e
           | Inr missing \<Rightarrow> Inr (if has then missing else field # missing)))"

text \<open>\<open>missing.join(', ')\<close>\<close>

fun join :: "string list \<Rightarrow> string" where
  "join [] = []"
| "join [x] = x"
| "join (x # y # ys) = x @ '', '' @ join (y # ys)"

text \<open>\<open>isValidFormat\<close> returns \<open>true\<close>, \<open>false\<close> or \<open>null\<close>.\<close>

definition isValidFormat :: "message \<Rightarrow> messageHandler \<Rightarrow> (error + jsval) \<times> messageHandler" where
  "isValidFormat msg s =
     (case hasOwnProperty msg ''type'' of
        Inl e \<Rightarrow> (Inl e, s)
      | Inr typed \<Rightarrow>
     (if \<not> typed then (Inr JNull, s)
      else
        (case toUpperCase (getField msg ''type'') of
           Inl e \<Rightarrow> (Inl e, s)
         | Inr t \<Rightarrow>
        (case typeFields t of
           Inl e \<Rightarrow> (Inl e, s)
         | Inr extra \<Rightarrow>
        (case missingFields msg ([''id'', ''type'', ''vehicleID''] @ extra) of
           Inl e \<Rightarrow> (Inl e, s)
         | Inr missing \<Rightarrow>
            (let rv = (missing = [])
             in if \<not> rv then
                  (case hasOwnProperty msg ''vehicleID'' of
                     Inl e \<Rightarrow> (Inl e, s)
                   | Inr attributable \<Rightarrow>
                  (if attributable then
                     (case nextMsgID of
                        Inl e \<Rightarrow> (Inl e, s)
                      | Inr i \<Rightarrow>
                          (case sendMessageTo (getField msg ''vehicleID'')
                                  [(''id'', i), (''type'', JStr ''badMessage''),
                                   (''error'', JStr (''Missing fields: '' @ join missing))] s of
                             (Inl e, s') \<Rightarrow> (Inl e, s')
                           | (Inr u, s') \<Rightarrow> (Inr (JBool rv), s')))
                   else (Inr JNull, s)))
                else (Inr (JBool rv), s)))))))"

definition ack :: "message \<Rightarrow> messageHandler \<Rightarrow> (error + unit) \<times> messageHandler" where
  "ack msg s =
     (case nextMsgID of
        Inl e \<Rightarrow> (Inl e, s)
      | Inr i \<Rightarrow> asyncSendMessage (Prim (getField msg ''sid'')) s)"

section \<open>Orchestrator: the vehicle registry\<close>

definition getVehicleByID :: "jsval \<Rightarrow> orchestrator \<Rightarrow> nat option" where
  "getVehicleByID vID s = find (\<lambda>v. vid (vehicles s ! v) = vID) (knownVehicles s)"

text \<open>\<open>new Vehicle(...)\<close>: the object is put in the store and its reference returned.\<close>

definition allocVehicle :: "vehicle \<Rightarrow> orchestrator \<Rightarrow> nat \<times> orchestrator" where
  "allocVehicle v s = (length (vehicles s), s\<lparr>vehicles := vehicles s @ [v]\<rparr>)"

text \<open>\<open>deactivateVehicle(vehicle)\<close>; \<open>None\<close> is a \<open>null\<close> argument, on which the first
  method call throws.\<close>

definition deactivateVehicle :: "nat option \<Rightarrow> orchestrator \<Rightarrow> (error + unit) \<times> orchestrator" where
  "deactivateVehicle vehicle s =
     (case vehicle of
        None \<Rightarrow> (Inl TypeError, s)
      | Some r \<Rightarrow>
          (Inr (),
           s\<lparr>vehicles := (vehicles s)[r := (vehicles s ! r)\<lparr>isActive := False, isAvailable := False\<rparr>]\<rparr>))"


definition addVehicle :: "nat \<Rightarrow> orchestrator \<Rightarrow> orchestrator" where
  "addVehicle r s =
     s\<lparr>vehicleStatusUpdater := vehicleStatusUpdater s @
          [Handler (VehicleKey (vid (vehicles s ! r))) (PingAgainCb r) (PingAgainCb r) 1000],
       knownVehicles := knownVehicles s @ [r]\<rparr>"

section \<open>Orchestrator: the mission schedule\<close>

definition reset :: "orchestrator \<Rightarrow> orchestrator" where
  "reset s =
     s\<lparr>isRunning := False, currentMission := None, currentMissionIndex := 0,
       currentMissionVehicles := None, scheduledMissions := [],
       scheduledMissionsStatus := [], nextMissionRequiredData := JNull\<rparr>"

text \<open>The callback that \<open>addMissions\<close> hands to \<open>listenForStatusUpdates\<close>, with the
  \<open>missionIndex\<close> it has captured. Both branches of its test make the same assignment,
  \<open>this.scheduledMissionsStatus[missionIndex] = status\<close>. The mission calls it with
  each new status, for as long as the mission lives.\<close>

definition statusListener :: "nat \<Rightarrow> jsval \<Rightarrow> orchestrator \<Rightarrow> orchestrator" where
  "statusListener missionIndex st s =
     s\<lparr>scheduledMissionsStatus := arrayAssign (scheduledMissionsStatus s) missionIndex st\<rparr>"

text \<open>The loop of \<open>addMissions\<close>. The log line of the first check reads
  \<open>mission.constructor.name\<close> before \<open>reset()\<close> is called. A mission that passes both
  checks is pushed with its status, and \<open>statusListener\<close> is registered with it under
  the index it was pushed at: the trace records the registration.\<close>

fun addMissionsLoop :: "entry list \<Rightarrow> orchestrator \<Rightarrow> (error + unit) \<times> orchestrator" where
  "addMissionsLoop [] s = (Inr (), s)"
| "addMissionsLoop (NotMission None # ms) s = (Inl TypeError, s)"
| "addMissionsLoop (NotMission (Some c) # ms) s =
     (Inr (), reset (log ''addMissions: not a Mission'' s))"
| "addMissionsLoop (IsMission m # ms) s =
     (if setupResult m \<noteq> JBool True then
        (Inr (), reset (log ''addMissions: setup not complete'' s))
      else
        addMissionsLoop ms
          (s\<lparr>scheduledMissions := scheduledMissions s @ [m],
             scheduledMissionsStatus := scheduledMissionsStatus s @ [status m],
             trace := trace s @ [ListenForStatusUpdates m (length (scheduledMissions s))]\<rparr>))"

definition addMissions :: "entry list \<Rightarrow> orchestrator \<Rightarrow> (error + unit) \<times> orchestrator" where
  "addMissions missions s =
     (if isRunning s then (Inr (), log ''addMissions: mission running'' s)
      else addMissionsLoop missions s)"

text \<open>\<open>startMission\<close>: reading \<open>.status\<close> of an element past the end of the schedule
  throws; so does \<open>currentMissionName()\<close> while \<open>currentMission\<close> is \<open>null\<close>.\<close>

definition startMission :: "jsval \<Rightarrow> orchestrator \<Rightarrow> (error + unit) \<times> orchestrator" where
  "startMission requiredData s =
     (if currentMissionIndex s < length (scheduledMissions s) then
        (let m = scheduledMissions s ! currentMissionIndex s in
         if status m = JStr ''READY'' then
           (Inr (),
            s\<lparr>isRunning := True, currentMission := Some m,
              trace := trace s @ [MissionStart m requiredData],
              currentMissionVehicles := Some (activeVehicles m)\<rparr>)
         else
           (case currentMission s of
              None \<Rightarrow> (Inl TypeError, s\<lparr>isRunning := False\<rparr>)
            | Some c \<Rightarrow> (Inr (), log (name c) (s\<lparr>isRunning := False\<rparr>))))
      else (Inl TypeError, s))"

definition endMission :: "jsval \<Rightarrow> orchestrator \<Rightarrow> (error + unit) \<times> orchestrator" where
  "endMission nextRequired s =
     (let s1 = s\<lparr>nextMissionRequiredData := nextRequired,
                 currentMissionIndex := currentMissionIndex s + 1\<rparr>
      in if length (scheduledMissions s1) < currentMissionIndex s1
         then startMission nextRequired s1
         else (Inr (), reset s1))"

section \<open>Message processing\<close>

text \<open>
  \<open>processMessage(message)\<close>. \<open>now\<close> and \<open>tmo\<close> are the contact time and timeout a new
  vehicle starts with. In the CONNECT branch the guard is
  \<open>vehc !== undefined && vehc.isActive\<close>: \<open>getVehicleByID\<close> returns \<open>null\<close> when
  nothing is found, which passes the first test, and the second then reads a
  property of \<open>null\<close>.
\<close>

definition processMessage :: "message \<Rightarrow> int \<Rightarrow> int \<Rightarrow> system \<Rightarrow> (error + unit) \<times> system" where
  "processMessage message now tmo s =
     (let sid = getField message ''sid'';
          vehc = getVehicleByID sid (orch s)
      in case toUpperCase (getField message ''type'') of
           Inl e \<Rightarrow> (Inl e, s)
         | Inr msgStr \<Rightarrow>
             if msgStr = ''CONNECT'' then
               (case vehc of
                  None \<Rightarrow> (Inl TypeError, s)
                | Some r \<Rightarrow>
                    if isActive (vehicles (orch s) ! r) then
                      (Inr (), s\<lparr>orch := log ''processMessage: already active'' (orch s)\<rparr>)
                    else
                      (let o1 = (orch s)\<lparr>knownVehicles :=
                                   filter (\<lambda>v. vid (vehicles (orch s) ! v) \<noteq> sid)
                                     (knownVehicles (orch s))\<rparr>
                       in case allocVehicle
                                 (Vehicle_new sid (getField message ''jobsAvailable'')
                                    (JStr ''WAITING'') now tmo) o1 of
                            (newVehc, o2) \<Rightarrow>
                              (let o3 = o2\<lparr>knownVehicles := knownVehicles o2 @ [newVehc]\<rparr>
                               in case sendMessageTo sid [(''type'', JStr ''connectionAck'')] (mh s) of
                                    (res, m') \<Rightarrow> (res, \<lparr>mh = m', orch = o3\<rparr>))))
             else
               (case vehc of
                  None \<Rightarrow> (Inr (), s\<lparr>orch := log ''processMessage: no vehicle registered'' (orch s)\<rparr>)
                | Some r \<Rightarrow>
                    (let v = vehicles (orch s) ! r in
                     if \<not> isActive v then
                       (case sendMessageTo (vid v) [(''type'', JStr ''stop'')] (mh s) of
                          (res, m') \<Rightarrow>
                            (res, \<lparr>mh = m', orch = log ''processMessage: inactive vehicle'' (orch s)\<rparr>))
                     else if msgStr = ''UPDATE'' then
                       (Inr (), s\<lparr>orch := (orch s)\<lparr>trace := trace (orch s) @ [VehicleUpdate r message]\<rparr>\<rparr>)
                     else if msgStr = ''POI'' \<or> msgStr = ''COMPLETE'' then
                       (case currentMissionVehicles (orch s) of
                          None \<Rightarrow> (Inl TypeError, s)
                        | Some own \<Rightarrow>
                          (case toPropertyKey sid of
                             Inl e \<Rightarrow> (Inl e, s)
                           | Inr key \<Rightarrow>
                            if propertyIn key own then
                              (if currentMissionIndex (orch s) < length (scheduledMissions (orch s))
                               then (Inr (),
                                     s\<lparr>orch := (orch s)\<lparr>trace := trace (orch s) @
                                        [MissionUpdate
                                           (scheduledMissions (orch s) ! currentMissionIndex (orch s))
                                           message]\<rparr>\<rparr>)
                               else (Inl TypeError, s))
                            else (Inr (), s)))
                     else (Inr (), s))))"

text \<open>
  \<open>receiveMessage(msg)\<close> at time \<open>now\<close>: the id is pushed, then \<open>ack\<close>, then the
  sender's \<open>lastConnTime\<close> is written through the result of \<open>getVehicleByID\<close>, then the
  \<open>switch\<close> on the upper-cased type, every case of which is empty.
\<close>

definition receiveMessage :: "message \<Rightarrow> int \<Rightarrow> system \<Rightarrow> (error + unit) \<times> system" where
  "receiveMessage msg now s =
     (let m1 = (mh s)\<lparr>messagesReceived := messagesReceived (mh s) @ [getField msg ''id'']\<rparr>
      in case ack msg m1 of
           (Inl e, m2) \<Rightarrow> (Inl e, s\<lparr>mh := m2\<rparr>)
         | (Inr u, m2) \<Rightarrow>
             (case getVehicleByID (getField msg ''sid'') (orch s) of
                None \<Rightarrow> (Inl TypeError, s\<lparr>mh := m2\<rparr>)
              | Some r \<Rightarrow>
                  (let o' = (orch s)\<lparr>vehicles :=
                               (vehicles (orch s))[r := (vehicles (orch s) ! r)\<lparr>lastConnTime := now\<rparr>]\<rparr>
                   in case toUpperCase (getField msg ''type'') of
                        Inl e \<Rightarrow> (Inl e, \<lparr>mh = m2, orch = o'\<rparr>)
                      | Inr t \<Rightarrow> (Inr (), \<lparr>mh = m2, orch = o'\<rparr>))))"

section \<open>Properties stated over the operations\<close>

text \<open>An entry that passes both checks of \<open>addMissions\<close>: a \<open>Mission\<close> instance whose
  \<open>missionSetupComplete()\<close> is \<open>true\<close>.\<close>

fun validEntry :: "entry \<Rightarrow> bool" where
  "validEntry (IsMission m) = (setupResult m = JBool True)"
| "validEntry (NotMission c) = False"

section \<open>Scenarios\<close>

text \<open>The CONNECT message of the end-to-end example.\<close>

definition connectV1 :: message where
  "connectV1 =
     [(''id'', JNum 1), (''sid'', JStr ''V1''), (''type'', JStr ''CONNECT''),
      (''jobsAvailable'', JNum 2)]"

definition afterFirstDelivery :: system where
  "afterFirstDelivery = snd (receiveMessage connectV1 0 (System_new 0))"

text \<open>An outbound message as a caller hands it to \<open>sendMessageTo\<close>: the type and the
  custom fields, no control fields.\<close>

definition updateCommand :: message where
  "updateCommand = [(''type'', JStr ''UPDATE''), (''lat'', JNum 3)]"

definition readyMission :: "string \<Rightarrow> mission" where
  "readyMission n =
     \<lparr>name = n, status = JStr ''READY'', setupResult = JBool True, activeVehicles = []\<rparr>"

definition unreadyMission :: "string \<Rightarrow> mission" where
  "unreadyMission n =
     \<lparr>name = n, status = JStr ''NOT_READY'', setupResult = JBool False, activeVehicles = []\<rparr>"

text \<open>Schedule \<open>[M0, M1]\<close>, both READY, then \<open>startMission(0)\<close>.\<close>

definition twoScheduled :: orchestrator where
  "twoScheduled =
     snd (addMissions [IsMission (readyMission ''M0''), IsMission (readyMission ''M1'')]
            Orchestrator_new)"

definition runningM0 :: orchestrator where
  "runningM0 = snd (startMission (JNum 0) twoScheduled)"

definition vehicleV1 :: vehicle where
  "vehicleV1 = Vehicle_new (JStr ''V1'') (JNum 2) (JStr ''WAITING'') 0 30000"

text \<open>One registered, active vehicle \<open>V1\<close>.\<close>

definition oneActive :: orchestrator where
  "oneActive = (case allocVehicle vehicleV1 Orchestrator_new of (a, s) \<Rightarrow> addVehicle a s)"

text \<open>\<open>addVehicle\<close> of a vehicle \<open>V1\<close>, its deactivation, and \<open>addVehicle\<close> of a second
  vehicle with the same id: the registry holds a stale \<open>V1\<close> before an active one.\<close>

definition staleThenActive :: orchestrator where
  "staleThenActive =
     (case allocVehicle vehicleV1 (snd (deactivateVehicle (Some 0) oneActive)) of
        (b, s) \<Rightarrow> addVehicle b s)"

text \<open>\<open>addVehicle\<close> of two active vehicles with the id \<open>V1\<close>.\<close>

definition twoActive :: orchestrator where
  "twoActive = (case allocVehicle vehicleV1 oneActive of (b, s) \<Rightarrow> addVehicle b s)"

text \<open>Schedule \<open>[M0]\<close>, \<open>startMission(0)\<close>, then \<open>endMission(7)\<close> by \<open>M0\<close>: the tail
  reset.\<close>

definition tailReset :: orchestrator where
  "tailReset =
     snd (endMission (JNum 7)
            (snd (startMission (JNum 0)
                    (snd (addMissions [IsMission (readyMission ''M0'')] Orchestrator_new)))))"

text \<open>\<open>addMissions([A, B])\<close>, \<open>reset()\<close>, \<open>addMissions([C])\<close>.\<close>

definition reAdded :: orchestrator where
  "reAdded =
     snd (addMissions [IsMission (readyMission ''C'')]
            (reset (snd (addMissions
                           [IsMission (readyMission ''A''), IsMission (readyMission ''B'')]
                           Orchestrator_new))))"

text \<open>Inbound messages for the format check: one without \<open>type\<close>, a complete POI
  report, and a POI report that names no vehicle.\<close>

definition untypedReport :: message where
  "untypedReport = [(''id'', JNum 1), (''vehicleID'', JStr ''V1'')]"

definition poiReport :: message where
  "poiReport =
     [(''id'', JNum 1), (''type'', JStr ''poi''), (''vehicleID'', JStr ''V1''),
      (''lat'', JNum 4), (''lon'', JNum 5)]"

definition anonymousReport :: message where
  "anonymousReport = [(''id'', JNum 1), (''type'', JStr ''poi'')]"

text \<open>An outbox holding two messages, with ids 1 and 2.\<close>

definition twoInOutbox :: messageHandler where
  "twoInOutbox =
     (MessageHandler_new 0)\<lparr>arrays :=
        [[[(''id'', JNum 1), (''type'', JStr ''stop'')],
          [(''id'', JNum 2), (''type'', JStr ''stop'')]]]\<rparr>"

section \<open>Receiving a message\<close>

text \<open>
  C1. Claim: an inbound message whose id is already in \<open>messagesReceived\<close> is dropped
  without any state change and without a second ACK. The code has no membership test:
  \<open>receiveMessage\<close> pushes the id before anything else. Delivering the CONNECT message
  with id 1 to a fresh system records the id; delivering it again ends with the id
  recorded twice, and the call throws in \<open>ack\<close> as every delivery does.
\<close>

theorem receiveMessage_redelivery_recorded_again:
  "getField connectV1 ''id'' \<in> set (messagesReceived (mh afterFirstDelivery)) \<and>
   fst (receiveMessage connectV1 1 afterFirstDelivery) = Inl TypeError \<and>
   messagesReceived (mh (snd (receiveMessage connectV1 1 afterFirstDelivery))) =
     [JNum 1, JNum 1]"
  by (simp add: connectV1_def afterFirstDelivery_def System_new_def MessageHandler_new_def
      Orchestrator_new_def receiveMessage_def ack_def nextMsgID_def getField_def)

section \<open>Mission sequencing\<close>

text \<open>
  C2. Claim: with a mission at the next index, \<open>endMission(d1)\<close> advances the index and
  starts that mission with \<open>d1\<close>. The code compares
  \<open>scheduledMissions.length < currentMissionIndex\<close>: with \<open>[M0, M1]\<close> scheduled and
  \<open>M0\<close> running, \<open>endMission(1)\<close> takes the reset branch. The schedule is emptied, the
  index is back at 0 and no \<open>missionStart\<close> call is made.
\<close>

theorem endMission_resets_with_mission_pending:
  "scheduledMissions runningM0 = [readyMission ''M0'', readyMission ''M1''] \<and>
   currentMissionIndex runningM0 = 0 \<and> isRunning runningM0 \<and>
   currentMission runningM0 = Some (readyMission ''M0'') \<and>
   fst (endMission (JNum 1) runningM0) = Inr () \<and>
   scheduledMissions (snd (endMission (JNum 1) runningM0)) = [] \<and>
   currentMission (snd (endMission (JNum 1) runningM0)) = None \<and>
   currentMissionIndex (snd (endMission (JNum 1) runningM0)) = 0 \<and>
   isRunning (snd (endMission (JNum 1) runningM0)) = False \<and>
   trace (snd (endMission (JNum 1) runningM0)) = trace runningM0"
  by (simp add: readyMission_def twoScheduled_def runningM0_def Orchestrator_new_def
      addMissions_def startMission_def endMission_def reset_def Let_def)

section \<open>CONNECT on an empty registry\<close>

text \<open>
  C3. Claim: the CONNECT message of the example, processed on an empty registry,
  registers an active vehicle \<open>V1\<close> with status WAITING and sends an acknowledgment,
  without an error. In the code the lookup returns \<open>null\<close> and the guard reads
  \<open>null.isActive\<close>: the call throws and leaves the system as it was.
\<close>

theorem processMessage_connect_on_empty_registry_throws:
  "processMessage connectV1 0 30000 (System_new 0) = (Inl TypeError, System_new 0)"
  by (simp add: connectV1_def System_new_def MessageHandler_new_def Orchestrator_new_def
      processMessage_def getVehicleByID_def getField_def toUpperChar_def Let_def)

section \<open>Sending a message\<close>

text \<open>
  C5. Claim: \<open>send(V1, m)\<close> gives \<open>m\<close> a fresh id, puts it in the outbound set and arms
  an ack timer. \<open>sendMessageTo\<close> on a fresh handler leaves the outbox array empty,
  assigns no id (the id pushed to \<open>messagesSent\<close> is \<open>undefined\<close>) and registers one
  handler per recipient name, keyed by three \<open>undefined\<close> values.
\<close>

theorem sendMessageTo_tracks_nothing:
  "fst (sendMessageTo (JStr ''V1'') updateCommand (MessageHandler_new 0)) = Inr () \<and>
   messageOutbox (snd (sendMessageTo (JStr ''V1'') updateCommand (MessageHandler_new 0))) = 0 \<and>
   arrays (snd (sendMessageTo (JStr ''V1'') updateCommand (MessageHandler_new 0))) = [[]] \<and>
   messagesSent (snd (sendMessageTo (JStr ''V1'') updateCommand (MessageHandler_new 0))) =
     [JUndefined] \<and>
   updateHandler (snd (sendMessageTo (JStr ''V1'') updateCommand (MessageHandler_new 0))) =
     [Handler (EventString JUndefined JUndefined JUndefined)
        (RmMsgCb (Prim (JStr ''vehicle''))) (DeactivateCb (Prim (JStr ''vehicle''))) 3000,
      Handler (EventString JUndefined JUndefined JUndefined)
        (RmMsgCb (Prim (JStr ''GCS''))) (DeactivateCb (Prim (JStr ''GCS''))) 3000]"
  by (simp add: updateCommand_def MessageHandler_new_def sendMessageTo_def messageRecipients_def
      asyncSendMessage_def getField_def toUpperChar_def Let_def)

section \<open>The outbox array under \<open>rmMsg\<close>\<close>

text \<open>
  C9. \<open>rmMsg(mID, box)\<close> returns a new array, the entries of \<open>box\<close> whose id is not
  \<open>mID\<close>, in order; the array passed as \<open>box\<close> and every other array of the store are
  as before. The renewal callback of \<open>asyncSendMessage\<close> discards the returned array:
  after it has run, \<open>messageOutbox\<close> is the same array with the same contents.
\<close>

theorem rmMsg_non_mutating:
  assumes "box < length h"
  shows "fst (rmMsg mID box h) \<noteq> box \<and>
         snd (rmMsg mID box h) ! fst (rmMsg mID box h) =
           filter (\<lambda>obj. getField obj ''id'' \<noteq> mID) (h ! box) \<and>
         snd (rmMsg mID box h) ! box = h ! box \<and>
         take (length h) (snd (rmMsg mID box h)) = h \<and>
         (messageOutbox s = box \<and> arrays s = h \<longrightarrow>
            messageOutbox (snd (renewalCallback msg s)) = box \<and>
            arrays (snd (renewalCallback msg s)) ! box = h ! box \<and>
            take (length h) (arrays (snd (renewalCallback msg s))) = h)"
  using assms by (auto simp: rmMsg_def renewalCallback_def nth_append split: sum.splits)

theorem rmMsg_non_mutating_witness:
  "messageOutbox twoInOutbox < length (arrays twoInOutbox) \<and>
   fst (rmMsg (JNum 1) 0 (arrays twoInOutbox)) = 1 \<and>
   snd (rmMsg (JNum 1) 0 (arrays twoInOutbox)) ! 1 = [[(''id'', JNum 2), (''type'', JStr ''stop'')]] \<and>
   snd (rmMsg (JNum 1) 0 (arrays twoInOutbox)) ! 0 = arrays twoInOutbox ! 0 \<and>
   messageOutbox (snd (renewalCallback (Obj [(''id'', JNum 1)]) twoInOutbox)) = 0 \<and>
   arrays (snd (renewalCallback (Obj [(''id'', JNum 1)]) twoInOutbox)) ! 0 =
     [[(''id'', JNum 1), (''type'', JStr ''stop'')], [(''id'', JNum 2), (''type'', JStr ''stop'')]]"
proof -
  have h: "(0::nat) < length (arrays twoInOutbox)"
    by (simp add: twoInOutbox_def MessageHandler_new_def rmMsg_def renewalCallback_def getField_def)
  show ?thesis
    using rmMsg_non_mutating [OF h, of "JNum 1" twoInOutbox "Obj [(''id'', JNum 1)]"]
    by (simp add: twoInOutbox_def MessageHandler_new_def rmMsg_def renewalCallback_def getField_def)
qed

section \<open>The schedule and its status table\<close>

text \<open>
  C10. Claim: in every state that construction, \<open>addMissions\<close> and \<open>reset\<close> lead to,
  the status table is as long as the schedule and holds at each position the status
  of the mission scheduled there. \<open>addMissions\<close> registers a status listener per
  mission that writes the table at the index captured when the mission was pushed;
  \<open>reset\<close> empties schedule and table and leaves the listeners registered. After the
  tail reset of schedule \<open>[M0]\<close>, the listener of \<open>M0\<close> reporting COMPLETE gives the
  table \<open>[COMPLETE]\<close> against an empty schedule. After \<open>addMissions([A, B])\<close>, \<open>reset()\<close>
  and \<open>addMissions([C])\<close>, the listener of \<open>B\<close> reporting COMPLETE gives the table
  \<open>[READY, COMPLETE]\<close> against the schedule \<open>[C]\<close>.
\<close>

theorem statusListener_breaks_parallel_arrays:
  "ListenForStatusUpdates (readyMission ''M0'') 0 \<in> set (trace tailReset) \<and>
   scheduledMissions tailReset = [] \<and>
   scheduledMissionsStatus tailReset = [] \<and>
   scheduledMissions (statusListener 0 (JStr ''COMPLETE'') tailReset) = [] \<and>
   scheduledMissionsStatus (statusListener 0 (JStr ''COMPLETE'') tailReset) =
     [JStr ''COMPLETE''] \<and>
   ListenForStatusUpdates (readyMission ''B'') 1 \<in> set (trace reAdded) \<and>
   scheduledMissions reAdded = [readyMission ''C''] \<and>
   scheduledMissionsStatus reAdded = [JStr ''READY''] \<and>
   scheduledMissions (statusListener 1 (JStr ''COMPLETE'') reAdded) = [readyMission ''C''] \<and>
   scheduledMissionsStatus (statusListener 1 (JStr ''COMPLETE'') reAdded) =
     [JStr ''READY'', JStr ''COMPLETE'']"
  by (simp add: readyMission_def tailReset_def reAdded_def Orchestrator_new_def
      addMissions_def startMission_def endMission_def reset_def statusListener_def
      arrayAssign_def Let_def)

section \<open>Batch add\<close>

lemma addMissionsLoop_fail_fast:
  "find (\<lambda>e. \<not> validEntry e) ms = Some e \<Longrightarrow> e \<noteq> NotMission None \<Longrightarrow>
   fst (addMissionsLoop ms s) = Inr () \<and>
   scheduledMissions (snd (addMissionsLoop ms s)) = [] \<and>
   scheduledMissionsStatus (snd (addMissionsLoop ms s)) = []"
  by (induction ms s rule: addMissionsLoop.induct) (auto simp: reset_def log_def split: if_splits)

text \<open>
  C4, as stated. Claim: whenever the list has an entry that is not a set-up \<open>Mission\<close>,
  \<open>addMissions\<close> leaves the schedule empty. While a mission runs, \<open>addMissions\<close>
  returns at its first test and the schedule \<open>[M0, M1]\<close> stays.
\<close>

theorem addMissions_while_running_keeps_schedule:
  "isRunning runningM0 \<and>
   \<not> validEntry (IsMission (unreadyMission ''B'')) \<and>
   scheduledMissions
     (snd (addMissions [IsMission (readyMission ''A''), IsMission (unreadyMission ''B'')]
             runningM0)) =
     [readyMission ''M0'', readyMission ''M1'']"
  by (simp add: readyMission_def unreadyMission_def twoScheduled_def runningM0_def
      Orchestrator_new_def addMissions_def startMission_def log_def Let_def)

text \<open>
  C4, amended. While a mission runs, \<open>addMissions\<close> returns with the schedule and the
  status table untouched. While none runs, and the first entry that is not a set-up
  \<open>Mission\<close> is an object whose constructor name can be read, \<open>addMissions\<close> returns
  with the schedule and the status table empty: the failing entry, the earlier ones of
  the batch and the missions scheduled before are all gone.
\<close>

theorem addMissions_fail_fast:
  "(isRunning s \<longrightarrow>
      fst (addMissions ms s) = Inr () \<and>
      scheduledMissions (snd (addMissions ms s)) = scheduledMissions s \<and>
      scheduledMissionsStatus (snd (addMissions ms s)) = scheduledMissionsStatus s) \<and>
   (\<not> isRunning s \<and> find (\<lambda>e. \<not> validEntry e) ms = Some e \<and> e \<noteq> NotMission None \<longrightarrow>
      fst (addMissions ms s) = Inr () \<and>
      scheduledMissions (snd (addMissions ms s)) = [] \<and>
      scheduledMissionsStatus (snd (addMissions ms s)) = [])"
  using addMissionsLoop_fail_fast [of ms e s] by (simp add: addMissions_def log_def)

theorem addMissions_fail_fast_witness:
  "\<not> isRunning twoScheduled \<and>
   scheduledMissions twoScheduled \<noteq> [] \<and>
   find (\<lambda>e. \<not> validEntry e) [IsMission (readyMission ''A''), IsMission (unreadyMission ''B'')]
     = Some (IsMission (unreadyMission ''B'')) \<and>
   scheduledMissions
     (snd (addMissions [IsMission (readyMission ''A''), IsMission (unreadyMission ''B'')]
             twoScheduled)) = [] \<and>
   scheduledMissionsStatus
     (snd (addMissions [IsMission (readyMission ''A''), IsMission (unreadyMission ''B'')]
             twoScheduled)) = [] \<and>
   isRunning runningM0 \<and>
   scheduledMissionsStatus
     (snd (addMissions [IsMission (readyMission ''A''), IsMission (unreadyMission ''B'')]
             runningM0)) = scheduledMissionsStatus runningM0"
proof -
  have quiet: "\<not> isRunning twoScheduled" and some: "scheduledMissions twoScheduled \<noteq> []"
    and busy: "isRunning runningM0"
    by (simp_all add: readyMission_def unreadyMission_def twoScheduled_def runningM0_def
      Orchestrator_new_def addMissions_def startMission_def log_def Let_def)
  have bad: "find (\<lambda>e. \<not> validEntry e)
      [IsMission (readyMission ''A''), IsMission (unreadyMission ''B'')]
      = Some (IsMission (unreadyMission ''B''))"
    by (simp add: readyMission_def unreadyMission_def twoScheduled_def runningM0_def
      Orchestrator_new_def addMissions_def startMission_def log_def Let_def)
  show ?thesis
    using quiet some busy bad
      addMissions_fail_fast [of twoScheduled
        "[IsMission (readyMission ''A''), IsMission (unreadyMission ''B'')]"
        "IsMission (unreadyMission ''B'')"]
      addMissions_fail_fast [of runningM0
        "[IsMission (readyMission ''A''), IsMission (unreadyMission ''B'')]"
        "IsMission (unreadyMission ''B'')"]
    by simp
qed

section \<open>CONNECT for an id that is held\<close>

text \<open>
  C6. Claim: whenever the registry holds an active vehicle with id \<open>V1\<close>, a CONNECT for
  \<open>V1\<close> leaves the registry unchanged. \<open>getVehicleByID\<close> returns the first entry with
  the id, and the guard of the CONNECT branch looks at that entry only. After
  \<open>addVehicle\<close> of a vehicle \<open>V1\<close>, its deactivation and \<open>addVehicle\<close> of a second \<open>V1\<close>,
  the registry is \<open>[stale V1, active V1]\<close>, with one active holder of the id. The
  CONNECT finds the stale entry, removes both entries and registers a third vehicle:
  the active holder is evicted.
\<close>

theorem connect_replaces_active_behind_stale:
  "knownVehicles staleThenActive = [0, 1] \<and>
   vid (vehicles staleThenActive ! 1) = JStr ''V1'' \<and>
   isActive (vehicles staleThenActive ! 1) \<and>
   fst (processMessage connectV1 5 30000
          \<lparr>mh = MessageHandler_new 0, orch = staleThenActive\<rparr>) = Inr () \<and>
   knownVehicles (orch (snd (processMessage connectV1 5 30000
          \<lparr>mh = MessageHandler_new 0, orch = staleThenActive\<rparr>))) = [2]"
  by (simp add: oneActive_def staleThenActive_def vehicleV1_def Vehicle_new_def
      Orchestrator_new_def MessageHandler_new_def connectV1_def allocVehicle_def addVehicle_def
      deactivateVehicle_def processMessage_def getVehicleByID_def getField_def toUpperChar_def
      sendMessageTo_def messageRecipients_def asyncSendMessage_def log_def Let_def)

text \<open>While the ids in the registry are pairwise different, the lookup returns the
  registered vehicle that has the id, and the CONNECT for an active one is logged and
  nothing else.\<close>

lemma find_unique:
  "distinct (map f ks) \<Longrightarrow> r \<in> set ks \<Longrightarrow> f r = i \<Longrightarrow> find (\<lambda>v. f v = i) ks = Some r"
  by (induction ks) (auto simp: image_iff)

lemma connect_conflict_logged:
  assumes "distinct (map (\<lambda>v. vid (vehicles (orch s) ! v)) (knownVehicles (orch s)))"
    and "r \<in> set (knownVehicles (orch s))"
    and "vid (vehicles (orch s) ! r) = getField msg ''sid''"
    and "isActive (vehicles (orch s) ! r)"
    and "toUpperCase (getField msg ''type'') = Inr ''CONNECT''"
  shows "processMessage msg now tmo s =
           (Inr (), s\<lparr>orch := (orch s)\<lparr>trace := trace (orch s) @
                                      [Logged ''processMessage: already active'']\<rparr>\<rparr>)"
proof -
  have "getVehicleByID (getField msg ''sid'') (orch s) = Some r"
    unfolding getVehicleByID_def using assms(1-3) by (rule find_unique)
  then show ?thesis
    using assms(4,5) by (simp add: processMessage_def log_def)
qed

section \<open>Deactivation and reconnection\<close>










section \<open>Format check of inbound messages\<close>

lemma toUpperChar_not_b: "toUpperChar c \<noteq> CHR ''b''"
  by (simp add: toUpperChar_def)

lemma toUpperCase_not_badMessage:
  assumes "toUpperCase v = Inr t"
  shows "t \<noteq> ''badMessage''"
proof
  assume bad: "t = ''badMessage''"
  obtain s where v: "v = JStr s"
    using assms by (cases v) simp_all
  with assms bad have "map toUpperChar s = ''badMessage''"
    by (simp split: if_splits)
  then obtain c cs where "s = c # cs" and "toUpperChar c = CHR ''b''"
    by (cases s) simp_all
  then show False
    using toUpperChar_not_b by blast
qed

lemma hasOwnProperty_plain:
  "hasOwnProperty msg g = Inr b \<Longrightarrow> hasOwnProperty msg f = Inr (map_of msg f \<noteq> None)"
  by (simp add: hasOwnProperty_def split: if_splits)

lemma missingFields_plain:
  "hasOwnProperty msg g = Inr b \<Longrightarrow>
   missingFields msg fs = Inr (filter (\<lambda>f. map_of msg f = None) fs)"
  by (induction fs) (simp_all add: hasOwnProperty_plain [of msg g b])

text \<open>
  C8, as stated. Claim: whenever a required field is missing and the vehicle id is
  present, a BADMESSAGE reply is sent. A message with \<open>id\<close> and \<open>vehicleID\<close> but no
  \<open>type\<close> is rejected at the first test of \<open>isValidFormat\<close>: the result is \<open>null\<close> and
  the handler, with its record of sent messages and timers, is as before.
\<close>

theorem isValidFormat_untyped_no_reply:
  "hasOwnProperty untypedReport ''vehicleID'' = Inr True \<and>
   missingFields untypedReport [''id'', ''type'', ''vehicleID''] = Inr [''type''] \<and>
   isValidFormat untypedReport (MessageHandler_new 0) = (Inr JNull, MessageHandler_new 0)"
  by (simp add: untypedReport_def MessageHandler_new_def isValidFormat_def hasOwnProperty_def)

text \<open>
  C8, amended. For a message without \<open>type\<close> the result is \<open>null\<close> and nothing is
  sent, whether or not it names a vehicle. For a message with a \<open>type\<close> that is ASCII
  text, the required fields are \<open>id\<close>, \<open>type\<close> and \<open>vehicleID\<close>, and by upper-cased
  type: ACK \<open>ackID\<close> and \<open>ackType\<close>, CONNECT \<open>jobsAvailable\<close>, POI \<open>lat\<close> and \<open>lon\<close>,
  COMPLETE \<open>missionData\<close>, UPDATE and every other type none. The result is \<open>true\<close>
  exactly when the message has every required field, and then nothing is sent; with
  a required field missing the result is never \<open>true\<close>. Without \<open>vehicleID\<close> the
  result is \<open>null\<close> and nothing is sent. (The statement is about messages that have no
  field of their own named \<open>hasOwnProperty\<close>: the premises on \<open>hasOwnProperty\<close> say so.)
\<close>

theorem isValidFormat_schema:
  "(hasOwnProperty msg ''type'' = Inr False \<longrightarrow> isValidFormat msg s = (Inr JNull, s)) \<and>
   (hasOwnProperty msg ''type'' = Inr True \<and> toUpperCase (getField msg ''type'') = Inr t \<longrightarrow>
      (\<exists>extra.
         typeFields t = Inr extra \<and>
         extra = (if t = ''ACK'' then [''ackID'', ''ackType'']
                  else if t = ''CONNECT'' then [''jobsAvailable'']
                  else if t = ''POI'' then [''lat'', ''lon'']
                  else if t = ''COMPLETE'' then [''missionData'']
                  else []) \<and>
         ((fst (isValidFormat msg s) = Inr (JBool True)) =
            (\<forall>f\<in>set ([''id'', ''type'', ''vehicleID''] @ extra). hasOwnProperty msg f = Inr True)) \<and>
         (fst (isValidFormat msg s) = Inr (JBool True) \<longrightarrow> snd (isValidFormat msg s) = s) \<and>
         (hasOwnProperty msg ''vehicleID'' = Inr False \<longrightarrow>
            isValidFormat msg s = (Inr JNull, s))))"
proof -
  have untyped: "isValidFormat msg s = (Inr JNull, s)" if "hasOwnProperty msg ''type'' = Inr False"
    using that by (simp add: isValidFormat_def)
  have typed: "\<exists>extra.
         typeFields t = Inr extra \<and>
         extra = (if t = ''ACK'' then [''ackID'', ''ackType'']
                  else if t = ''CONNECT'' then [''jobsAvailable'']
                  else if t = ''POI'' then [''lat'', ''lon'']
                  else if t = ''COMPLETE'' then [''missionData'']
                  else []) \<and>
         ((fst (isValidFormat msg s) = Inr (JBool True)) =
            (\<forall>f\<in>set ([''id'', ''type'', ''vehicleID''] @ extra). hasOwnProperty msg f = Inr True)) \<and>
         (fst (isValidFormat msg s) = Inr (JBool True) \<longrightarrow> snd (isValidFormat msg s) = s) \<and>
         (hasOwnProperty msg ''vehicleID'' = Inr False \<longrightarrow>
            isValidFormat msg s = (Inr JNull, s))"
    if ty: "hasOwnProperty msg ''type'' = Inr True"
      and up: "toUpperCase (getField msg ''type'') = Inr t"
  proof -
    define extra where "extra =
      (if t = ''ACK'' then [''ackID'', ''ackType'']
       else if t = ''CONNECT'' then [''jobsAvailable'']
       else if t = ''POI'' then [''lat'', ''lon'']
       else if t = ''COMPLETE'' then [''missionData'']
       else [])"
    define reqd where "reqd = [''id'', ''type'', ''vehicleID''] @ extra"
    have "t \<noteq> ''badMessage''"
      using up by (rule toUpperCase_not_badMessage)
    then have ex: "typeFields t = Inr extra"
      by (simp add: typeFields_def extra_def)
    have has: "\<And>f. hasOwnProperty msg f = Inr (map_of msg f \<noteq> None)"
      using ty by (rule hasOwnProperty_plain)
    have miss: "missingFields msg reqd = Inr (filter (\<lambda>f. map_of msg f = None) reqd)"
      using ty by (rule missingFields_plain)
    have all: "(\<forall>f\<in>set reqd. hasOwnProperty msg f = Inr True) =
        (filter (\<lambda>f. map_of msg f = None) reqd = [])"
      by (auto simp: has filter_empty_conv)
    have complete: "isValidFormat msg s = (Inr (JBool True), s)"
      if "filter (\<lambda>f. map_of msg f = None) reqd = []"
      using that ty up ex miss by (simp add: isValidFormat_def reqd_def)
    have incomplete: "fst (isValidFormat msg s) \<noteq> Inr (JBool True)"
      if "filter (\<lambda>f. map_of msg f = None) reqd \<noteq> []"
      using that ty up ex miss
      by (simp add: isValidFormat_def reqd_def nextMsgID_def has)
    have anon: "isValidFormat msg s = (Inr JNull, s)"
      if no: "hasOwnProperty msg ''vehicleID'' = Inr False"
    proof -
      have "map_of msg ''vehicleID'' = None"
        using no by (simp add: has)
      then have "filter (\<lambda>f. map_of msg f = None) reqd \<noteq> []"
        by (simp add: reqd_def)
      then show ?thesis
        using no ty up ex miss by (simp add: isValidFormat_def reqd_def)
    qed
    have iff: "(fst (isValidFormat msg s) = Inr (JBool True)) =
        (\<forall>f\<in>set reqd. hasOwnProperty msg f = Inr True)"
      using complete incomplete by (auto simp: all)
    have frame: "fst (isValidFormat msg s) = Inr (JBool True) \<longrightarrow> snd (isValidFormat msg s) = s"
      using complete incomplete by (cases "filter (\<lambda>f. map_of msg f = None) reqd = []") simp_all
    show ?thesis
      using ex iff frame anon unfolding reqd_def extra_def by blast
  qed
  show ?thesis using untyped typed by blast
qed

theorem isValidFormat_schema_witness:
  "hasOwnProperty untypedReport ''type'' = Inr False \<and>
   isValidFormat untypedReport (MessageHandler_new 0) = (Inr JNull, MessageHandler_new 0) \<and>
   hasOwnProperty poiReport ''type'' = Inr True \<and>
   toUpperCase (getField poiReport ''type'') = Inr ''POI'' \<and>
   typeFields ''POI'' = Inr [''lat'', ''lon''] \<and>
   fst (isValidFormat poiReport (MessageHandler_new 0)) = Inr (JBool True) \<and>
   snd (isValidFormat poiReport (MessageHandler_new 0)) = MessageHandler_new 0 \<and>
   hasOwnProperty anonymousReport ''type'' = Inr True \<and>
   toUpperCase (getField anonymousReport ''type'') = Inr ''POI'' \<and>
   hasOwnProperty anonymousReport ''vehicleID'' = Inr False \<and>
   fst (isValidFormat anonymousReport (MessageHandler_new 0)) \<noteq> Inr (JBool True) \<and>
   isValidFormat anonymousReport (MessageHandler_new 0) = (Inr JNull, MessageHandler_new 0)"
proof -
  have a: "hasOwnProperty untypedReport ''type'' = Inr False"
    by (simp add: untypedReport_def hasOwnProperty_def)
  have b: "hasOwnProperty poiReport ''type'' = Inr True"
    "toUpperCase (getField poiReport ''type'') = Inr ''POI''"
    "\<forall>f\<in>set [''id'', ''type'', ''vehicleID'', ''lat'', ''lon'']. hasOwnProperty poiReport f = Inr True"
    by (simp_all add: poiReport_def hasOwnProperty_def getField_def toUpperChar_def)
  have c: "hasOwnProperty anonymousReport ''type'' = Inr True"
    "toUpperCase (getField anonymousReport ''type'') = Inr ''POI''"
    "hasOwnProperty anonymousReport ''vehicleID'' = Inr False"
    by (simp_all add: anonymousReport_def hasOwnProperty_def getField_def toUpperChar_def)
  have t: "typeFields ''POI'' = Inr [''lat'', ''lon'']"
    by (simp add: typeFields_def)
  show ?thesis
    using a b c t
      isValidFormat_schema [of untypedReport "MessageHandler_new 0" "''POI''"]
      isValidFormat_schema [of poiReport "MessageHandler_new 0" "''POI''"]
      isValidFormat_schema [of anonymousReport "MessageHandler_new 0" "''POI''"]
    by auto
qed

end
